theory Spec2Isabelle
  imports
    Complex_Main
    "HOL-Library.Char_ord"
    "HOL-Library.List_Lexorder"
    "HOL-Library.Product_Lexorder"
begin

section \<open>Exceptions and outcomes\<close>

text \<open>
  Every \<^verbatim>\<open>raise\<close> of \<^verbatim>\<open>scheduler.py\<close> and every exception of a collaborator
  that the scheduler handles or lets through is a value. \<open>DispatchError\<close> stands for
  whatever \<^verbatim>\<open>queue.enqueue_job\<close> raises when the dispatch queue does not take a
  job, \<open>CronError\<close> for what \<^verbatim>\<open>croniter\<close> raises on an expression it cannot
  read.
\<close>

datatype error =
    ValueError string
  | RedisError string
  | WatchError
  | DispatchError
  | CronError

datatype 'a outcome = Return 'a | Raise error

section \<open>Time\<close>

text \<open>
  A \<^verbatim>\<open>datetime\<close> is its number of seconds since the epoch, a real number;
  \<^verbatim>\<open>time.time()\<close> and \<^verbatim>\<open>datetime.utcnow()\<close> read the same clock. Python
  floats are taken as exact reals: the code only adds, subtracts and compares them.
\<close>

type_synonym datetime = real

text \<open>
  Modelled from the spec: \<^verbatim>\<open>utils.to_unix\<close> and \<^verbatim>\<open>utils.from_unix\<close> are not
  among the sources. The spec's time codec "converts calendar time to a sortable numeric
  score"; the score is the whole number of seconds (\<^verbatim>\<open>calendar.timegm\<close> of the
  time tuple, which drops the microseconds).
\<close>

definition to_unix :: "datetime \<Rightarrow> int" where
  "to_unix dt = \<lfloor>dt\<rfloor>"

definition from_unix :: "int \<Rightarrow> datetime" where
  "from_unix epoch = of_int epoch"

text \<open>Python's \<^verbatim>\<open>int(x)\<close> on a float truncates towards zero.\<close>

definition py_int :: "real \<Rightarrow> int" where
  "py_int x = (if 0 \<le> x then \<lfloor>x\<rfloor> else \<lceil>x\<rceil>)"

section \<open>The sorted set of the coordination store\<close>

text \<open>
  A Redis sorted set is a list of (member, score) pairs, kept in the order Redis
  returns them: by score, then by member. Scores written by the scheduler are whole
  seconds, so they are integers. The upper bound of a range query is a score or
  \<^verbatim>\<open>"+inf"\<close>.
\<close>

type_synonym zset = "(string \<times> int) list"

datatype bound = PlusInf | Score int

definition zkey :: "string \<times> int \<Rightarrow> int \<times> string" where
  "zkey e = (snd e, fst e)"

definition zrem :: "zset \<Rightarrow> string \<Rightarrow> zset" where
  "zrem z member = filter (\<lambda>e. fst e \<noteq> member) z"

definition zadd :: "zset \<Rightarrow> int \<Rightarrow> string \<Rightarrow> zset" where
  "zadd z score member = insort_key zkey (member, score) (zrem z member)"

definition zscore :: "zset \<Rightarrow> string \<Rightarrow> int option" where
  "zscore z member = map_of z member"

fun in_range :: "int \<Rightarrow> bound \<Rightarrow> int \<Rightarrow> bool" where
  "in_range lo PlusInf sc = (lo \<le> sc)"
| "in_range lo (Score hi) sc = (lo \<le> sc \<and> sc \<le> hi)"

definition zcount :: "zset \<Rightarrow> int \<Rightarrow> bound \<Rightarrow> nat" where
  "zcount z lo hi = length (filter (\<lambda>e. in_range lo hi (snd e)) z)"

text \<open>
  \<^verbatim>\<open>zrangebyscore(name, min, max, start, num, withscores)\<close> of redis-py: it raises
  when only one of \<^verbatim>\<open>start\<close> and \<^verbatim>\<open>num\<close> is given, and otherwise returns the
  entries in range, sliced by \<^verbatim>\<open>LIMIT start num\<close> when both are given. The scores
  are always returned here; the caller drops them when \<^verbatim>\<open>withscores\<close> is false.
\<close>

definition zrangebyscore ::
  "zset \<Rightarrow> int \<Rightarrow> bound \<Rightarrow> nat option \<Rightarrow> nat option \<Rightarrow> (string \<times> int) list outcome" where
  "zrangebyscore z lo hi start num =
     (let hits = filter (\<lambda>e. in_range lo hi (snd e)) z in
      case (start, num) of
        (None, None) \<Rightarrow> Return hits
      | (Some st, Some n) \<Rightarrow> Return (take n (drop st hits))
      | _ \<Rightarrow> Raise (RedisError ''start and num must both be specified''))"

section \<open>Jobs\<close>

text \<open>
  An RQ job record, as far as the scheduler reads and writes it. Of the free-form
  \<^verbatim>\<open>meta\<close> dictionary the scheduler touches three keys, each absent (\<open>None\<close>) or
  set: \<^verbatim>\<open>interval\<close>, \<^verbatim>\<open>repeat\<close> and \<^verbatim>\<open>cron_string\<close>.
\<close>

record job =
  job_id :: string
  func :: string
  args :: "string list"
  kwargs :: "(string \<times> string) list"
  origin :: string
  result_ttl :: "int option"
  job_ttl :: "int option"
  job_timeout :: "int option"
  description :: "string option"
  meta_interval :: "int option"
  meta_repeat :: "int option"
  meta_cron_string :: "string option"

text \<open>Python truthiness of an optional integer and of an optional string.\<close>

fun truthy_int :: "int option \<Rightarrow> bool" where
  "truthy_int None = False"
| "truthy_int (Some n) = (n \<noteq> 0)"

fun truthy_str :: "string option \<Rightarrow> bool" where
  "truthy_str None = False"
| "truthy_str (Some str) = (str \<noteq> [])"

section \<open>The scheduler and its world\<close>

text \<open>
  The attributes of a \<^verbatim>\<open>Scheduler\<close> instance that never change after
  \<^verbatim>\<open>__init__\<close>, together with the two collaborators whose answers the scheduler
  cannot compute: whether the dispatch queue refuses a job, and croniter's next
  occurrence of a cron expression after a given time (\<open>None\<close> when it raises).
\<close>

record scheduler =
  queue_name :: string
  interval :: real
  dispatch_fails :: "job \<Rightarrow> bool"
  croniter_next :: "string \<Rightarrow> datetime \<Rightarrow> datetime option"

text \<open>
  The persisted layout and the rest of the mutable world:
  \<^item> \<open>scheduler_hash\<close>: the hash at \<^verbatim>\<open>rq:scheduler\<close> (\<open>None\<close>: no such key), with
    its time to live in \<open>scheduler_expire\<close>;
  \<^item> \<open>lock_key\<close>: the value and time to live of \<^verbatim>\<open>rq:scheduler_lock\<close>;
  \<^item> \<open>scheduled_jobs\<close>: the sorted set \<^verbatim>\<open>rq:scheduler:scheduled_jobs\<close>;
  \<^item> \<open>job_records\<close>: the saved job records, by id;
  \<^item> \<open>queues\<close>: the job ids pushed to each dispatch queue, oldest first;
  \<^item> \<open>lock_acquired\<close>: the attribute \<^verbatim>\<open>self._lock_acquired\<close>;
  \<^item> \<open>clock\<close> and \<open>reads\<close>: the n-th reading of the system clock and how many
    readings were taken so far;
  \<^item> \<open>sleep_calls\<close>: the arguments \<^verbatim>\<open>time.sleep\<close> was called with, oldest first.
  Keys are not expired inside the model: a time to live is a stored number.
\<close>

record world =
  scheduler_hash :: "(string \<rightharpoonup> real) option"
  scheduler_expire :: "int option"
  lock_key :: "(real \<times> int) option"
  scheduled_jobs :: zset
  job_records :: "string \<rightharpoonup> job"
  queues :: "string \<Rightarrow> string list"
  lock_acquired :: bool
  clock :: "nat \<Rightarrow> real"
  reads :: nat
  sleep_calls :: "real list"

definition time_time :: "world \<Rightarrow> real \<times> world" where
  "time_time w = (clock w (reads w), w\<lparr>reads := Suc (reads w)\<rparr>)"

definition utcnow :: "world \<Rightarrow> datetime \<times> world" where
  "utcnow w = time_time w"

subsection \<open>Creating and inserting jobs\<close>

text \<open>
  \<^verbatim>\<open>_create_job\<close>: \<^verbatim>\<open>Job.create\<close> with an empty \<^verbatim>\<open>meta\<close>, the origin set to
  \<^verbatim>\<open>queue_name or self.queue_name\<close>, saved when \<^verbatim>\<open>commit\<close> is true. \<open>fresh\<close> is
  the identifier \<^verbatim>\<open>Job.create\<close> draws when it is given none.
\<close>

definition create_job ::
  "scheduler \<Rightarrow> string \<Rightarrow> string list \<Rightarrow> (string \<times> string) list \<Rightarrow> bool \<Rightarrow> int option \<Rightarrow>
   int option \<Rightarrow> string option \<Rightarrow> string option \<Rightarrow> string option \<Rightarrow> int option \<Rightarrow> string \<Rightarrow>
   world \<Rightarrow> job \<times> world" where
  "create_job self f as kw commit rttl jttl ident descr qname tmo fresh w =
     (let j = \<lparr>job_id = (case ident of None \<Rightarrow> fresh | Some i \<Rightarrow> i),
                func = f, args = as, kwargs = kw,
                origin = (if truthy_str qname then the qname else queue_name self),
                result_ttl = rttl, job_ttl = jttl, job_timeout = tmo, description = descr,
                meta_interval = None, meta_repeat = None, meta_cron_string = None\<rparr>
      in if commit then (j, w\<lparr>job_records := (job_records w)(job_id j \<mapsto> j)\<rparr>) else (j, w))"

text \<open>
  \<^verbatim>\<open>enqueue_at\<close>. The four reserved keywords it pops from \<^verbatim>\<open>**kwargs\<close>
  (\<^verbatim>\<open>timeout\<close>, \<^verbatim>\<open>job_id\<close>, \<^verbatim>\<open>job_ttl\<close>, \<^verbatim>\<open>job_result_ttl\<close>) are optional
  parameters of their own; \<open>kw\<close> is what is left for the job.
\<close>

definition enqueue_at ::
  "scheduler \<Rightarrow> datetime \<Rightarrow> string \<Rightarrow> string list \<Rightarrow> (string \<times> string) list \<Rightarrow> int option \<Rightarrow>
   string option \<Rightarrow> int option \<Rightarrow> int option \<Rightarrow> string \<Rightarrow> world \<Rightarrow> job \<times> world" where
  "enqueue_at self scheduled_time f as kw tmo ident jttl jrttl fresh w =
     (let (j, w1) = create_job self f as kw True jrttl jttl ident None None tmo fresh w
      in (j, w1\<lparr>scheduled_jobs := zadd (scheduled_jobs w1) (to_unix scheduled_time) (job_id j)\<rparr>))"

text \<open>
  \<^verbatim>\<open>enqueue_in\<close>: as \<^verbatim>\<open>enqueue_at\<close>, the time being the clock's reading plus
  \<^verbatim>\<open>time_delta\<close> (in seconds).
\<close>

definition enqueue_in ::
  "scheduler \<Rightarrow> real \<Rightarrow> string \<Rightarrow> string list \<Rightarrow> (string \<times> string) list \<Rightarrow> int option \<Rightarrow>
   string option \<Rightarrow> int option \<Rightarrow> int option \<Rightarrow> string \<Rightarrow> world \<Rightarrow> job \<times> world" where
  "enqueue_in self time_delta f as kw tmo ident jttl jrttl fresh w =
     (let (j, w1) = create_job self f as kw True jrttl jttl ident None None tmo fresh w;
          (now, w2) = utcnow w1
      in (j, w2\<lparr>scheduled_jobs := zadd (scheduled_jobs w2) (to_unix (now + time_delta)) (job_id j)\<rparr>))"

subsection \<open>Cancelling\<close>

text \<open>
  \<^verbatim>\<open>cancel\<close> takes a job instance or a job id and has a branch for each
  (\<^verbatim>\<open>isinstance(job, Job)\<close>); both end in a \<^verbatim>\<open>zrem\<close>, which answers with the
  number of members it removed and does not raise for a member that is not there. The
  function returns \<^verbatim>\<open>None\<close>.
\<close>

datatype job_or_id = Instance job | Ident string

definition cancel :: "job_or_id \<Rightarrow> world \<Rightarrow> unit outcome \<times> world" where
  "cancel x w =
     (case x of
        Instance j \<Rightarrow> (Return (), w\<lparr>scheduled_jobs := zrem (scheduled_jobs w) (job_id j)\<rparr>)
      | Ident i \<Rightarrow> (Return (), w\<lparr>scheduled_jobs := zrem (scheduled_jobs w) i\<rparr>))"

text \<open>
  \<^verbatim>\<open>__contains__\<close>: the id is the item itself, or the item's id when the item is a
  job instance.
\<close>

fun ident_of :: "job_or_id \<Rightarrow> string" where
  "ident_of (Instance j) = job_id j"
| "ident_of (Ident i) = i"

definition contains :: "job_or_id \<Rightarrow> world \<Rightarrow> bool" where
  "contains x w = (zscore (scheduled_jobs w) (ident_of x) \<noteq> None)"

subsection \<open>Periodic and cron jobs\<close>

text \<open>
  \<^verbatim>\<open>schedule\<close>. The job is created without being saved (\<^verbatim>\<open>commit=False\<close>), its
  \<^verbatim>\<open>meta\<close> is filled in, and only then is the combination of \<^verbatim>\<open>repeat\<close> and
  \<^verbatim>\<open>interval\<close> checked; the save and the insertion follow the check. The
  arguments \<^verbatim>\<open>interval\<close> and \<^verbatim>\<open>repeat\<close> are integers (\<^verbatim>\<open>int\<close> of them is
  the identity).
\<close>

definition schedule ::
  "scheduler \<Rightarrow> datetime \<Rightarrow> string \<Rightarrow> string list \<Rightarrow> (string \<times> string) list \<Rightarrow> int option \<Rightarrow>
   int option \<Rightarrow> int option \<Rightarrow> int option \<Rightarrow> int option \<Rightarrow> string option \<Rightarrow> string option \<Rightarrow>
   string option \<Rightarrow> string \<Rightarrow> world \<Rightarrow> job outcome \<times> world" where
  "schedule self scheduled_time f as kw ival rep rttl jttl tmo ident descr qname fresh w =
     (let rttl1 = (if ival \<noteq> None \<and> rttl = None then Some (- 1) else rttl);
          (j, w1) = create_job self f as kw False rttl1 jttl ident descr qname tmo fresh w;
          j1 = (case ival of None \<Rightarrow> j | Some i \<Rightarrow> j\<lparr>meta_interval := Some i\<rparr>);
          j2 = (case rep of None \<Rightarrow> j1 | Some r \<Rightarrow> j1\<lparr>meta_repeat := Some r\<rparr>)
      in if truthy_int rep \<and> ival = None
         then (Raise (ValueError ''Can't repeat a job without interval argument''), w1)
         else (Return j2,
               w1\<lparr>job_records := (job_records w1)(job_id j2 \<mapsto> j2),
                  scheduled_jobs := zadd (scheduled_jobs w1) (to_unix scheduled_time) (job_id j2)\<rparr>))"

text \<open>
  Modelled from the spec: \<^verbatim>\<open>utils.get_next_scheduled_time\<close> is not among the sources.
  The spec's time codec "resolves cron expressions to next-fire timestamps", the "next
  time computed against current wall-clock"; a malformed expression raises.
\<close>

definition get_next_scheduled_time :: "scheduler \<Rightarrow> string \<Rightarrow> world \<Rightarrow> datetime outcome \<times> world" where
  "get_next_scheduled_time self cron_string w =
     (let (now, w1) = utcnow w in
      case croniter_next self cron_string now of
        None \<Rightarrow> (Raise CronError, w1)
      | Some t \<Rightarrow> (Return t, w1))"

definition cron ::
  "scheduler \<Rightarrow> string \<Rightarrow> string \<Rightarrow> string list \<Rightarrow> (string \<times> string) list \<Rightarrow> int option \<Rightarrow>
   string option \<Rightarrow> string option \<Rightarrow> int option \<Rightarrow> string option \<Rightarrow> string \<Rightarrow> world \<Rightarrow>
   job outcome \<times> world" where
  "cron self cron_string f as kw rep qname ident tmo descr fresh w =
     (case get_next_scheduled_time self cron_string w of
        (Raise e, w1) \<Rightarrow> (Raise e, w1)
      | (Return scheduled_time, w1) \<Rightarrow>
          (let (j, w2) = create_job self f as kw False (Some (- 1)) None ident descr qname tmo fresh w1;
               j1 = j\<lparr>meta_cron_string := Some cron_string\<rparr>;
               j2 = (case rep of None \<Rightarrow> j1 | Some r \<Rightarrow> j1\<lparr>meta_repeat := Some r\<rparr>)
           in (Return j2,
               w2\<lparr>job_records := (job_records w2)(job_id j2 \<mapsto> j2),
                  scheduled_jobs := zadd (scheduled_jobs w2) (to_unix scheduled_time) (job_id j2)\<rparr>)))"

subsection \<open>Changing a job's execution time\<close>

text \<open>
  \<^verbatim>\<open>change_execution_time\<close> talks to the store through a redis-py pipeline while
  other clients use the same store. What the other clients and the connection do is a
  script: one event for each command the pipeline sends, read when the command reaches
  the store. Before the command takes effect another client may have removed or
  (re)inserted a job; or the command raises \<^verbatim>\<open>WatchError\<close>. When the script is used
  up, nothing interferes any more.

  After \<^verbatim>\<open>pipe.watch\<close> a redis-py pipeline runs every command at once until
  \<^verbatim>\<open>pipe.multi()\<close> is called; \<^verbatim>\<open>change_execution_time\<close> calls neither
  \<^verbatim>\<open>multi\<close> nor \<^verbatim>\<open>execute\<close>, so its \<^verbatim>\<open>zscore\<close> and its \<^verbatim>\<open>zadd\<close> are two
  separate commands.
\<close>

datatype event = Quiet | Cancelled string | Rescheduled string int | WatchFails

fun interfere :: "event \<Rightarrow> zset \<Rightarrow> zset" where
  "interfere Quiet z = z"
| "interfere (Cancelled i) z = zrem z i"
| "interfere (Rescheduled i sc) z = zadd z sc i"
| "interfere WatchFails z = z"

text \<open>
  One pipeline command reaching the store: whether it raises \<^verbatim>\<open>WatchError\<close>, the
  rest of the script, and the world the command sees.
\<close>

fun pipe_command :: "event list \<Rightarrow> world \<Rightarrow> bool \<times> event list \<times> world" where
  "pipe_command [] w = (False, [], w)"
| "pipe_command (e # es) w =
     (e = WatchFails, es, w\<lparr>scheduled_jobs := interfere e (scheduled_jobs w)\<rparr>)"

datatype attempt = Done | Failed error | Conflict

text \<open>The body of the \<^verbatim>\<open>try\<close>: watch, check membership, write.\<close>

definition try_change :: "job \<Rightarrow> datetime \<Rightarrow> event list \<Rightarrow> world \<Rightarrow> attempt \<times> event list \<times> world" where
  "try_change j date_time script w =
     (let (raised1, s1, w1) = pipe_command script w in
      if raised1 then (Conflict, s1, w1)
      else
        (let (raised2, s2, w2) = pipe_command s1 w1 in
         if raised2 then (Conflict, s2, w2)
         else if zscore (scheduled_jobs w2) (job_id j) = None
         then (Failed (ValueError ''Job not in scheduled jobs queue''), s2, w2)
         else
           (let (raised3, s3, w3) = pipe_command s2 w2 in
            if raised3 then (Conflict, s3, w3)
            else (Done, s3,
                  w3\<lparr>scheduled_jobs := zadd (scheduled_jobs w3) (to_unix date_time) (job_id j)\<rparr>))))"

text \<open>
  The \<^verbatim>\<open>except WatchError\<close> handler: check membership again, then raise
  (\<open>Some\<close> of the exception) or \<^verbatim>\<open>continue\<close> (\<open>None\<close>). A \<^verbatim>\<open>WatchError\<close>
  raised inside the handler is not caught.
\<close>

definition on_watch_error :: "job \<Rightarrow> event list \<Rightarrow> world \<Rightarrow> error option \<times> event list \<times> world" where
  "on_watch_error j script w =
     (let (raised, s1, w1) = pipe_command script w in
      if raised then (Some WatchError, s1, w1)
      else if zscore (scheduled_jobs w1) (job_id j) = None
      then (Some (ValueError ''Job not in scheduled jobs queue''), s1, w1)
      else (None, s1, w1))"

text \<open>
  The \<^verbatim>\<open>while 1\<close> loop. Every retry has used up at least one event of the script,
  so the loop ends.
\<close>

function change_execution_time :: "job \<Rightarrow> datetime \<Rightarrow> event list \<Rightarrow> world \<Rightarrow> unit outcome \<times> world" where
  "change_execution_time j date_time script w =
     (case try_change j date_time script w of
        (Done, s1, w1) \<Rightarrow> (Return (), w1)
      | (Failed e, s1, w1) \<Rightarrow> (Raise e, w1)
      | (Conflict, s1, w1) \<Rightarrow>
          (case on_watch_error j s1 w1 of
             (Some e, s2, w2) \<Rightarrow> (Raise e, w2)
           | (None, s2, w2) \<Rightarrow> change_execution_time j date_time s2 w2))"
  by pat_completeness auto
termination
proof (relation "measure (\<lambda>(j, date_time, script, w). length script)")
  show "wf (measure (\<lambda>(j, date_time, script, w). length script))"
    by simp
next
  fix j :: job and date_time :: datetime and script :: "event list" and w :: world
  fix x1 x2 s1 w1 y1 y2 s2 w2
  assume t: "(x1, x2) = try_change j date_time script w" "(s1, w1) = x2" "x1 = Conflict"
    and h: "(y1, y2) = on_watch_error j s1 w1" "(s2, w2) = y2"
  from t have "length s1 < length script"
    by (cases script; cases "tl script"; cases "tl (tl script)")
      (auto simp: try_change_def split: if_splits)
  moreover from h have "length s2 \<le> length s1"
    by (cases s1) (auto simp: on_watch_error_def split: if_splits)
  ultimately show "((j, date_time, s2, w2), (j, date_time, script, w))
      \<in> measure (\<lambda>(j, date_time, script, w). length script)"
    by simp
qed

subsection \<open>Counting and listing\<close>

text \<open>
  Modelled from the spec: \<^verbatim>\<open>utils.rationalize_until\<close> is not among the sources. By
  the docstrings of \<^verbatim>\<open>count\<close> and \<^verbatim>\<open>get_jobs\<close> the bound is absent ("all jobs are
  returned"), an epoch value or a datetime; the spec's \<^verbatim>\<open>count(until)\<close> counts the
  "entries with due_at \<le> until". The relative form (a timedelta, resolved against the
  clock on every call) is left out.
\<close>

datatype until = Epoch int | At datetime

fun rationalize_until :: "until option \<Rightarrow> bound" where
  "rationalize_until None = PlusInf"
| "rationalize_until (Some (Epoch n)) = Score n"
| "rationalize_until (Some (At dt)) = Score (to_unix dt)"

definition count :: "until option \<Rightarrow> world \<Rightarrow> nat" where
  "count until w = zcount (scheduled_jobs w) 0 (rationalize_until until)"

text \<open>
  The loop of \<^verbatim>\<open>get_jobs\<close> over the entries the range query returned: a job whose
  record \<^verbatim>\<open>Job.fetch\<close> does not find (\<^verbatim>\<open>NoSuchJobError\<close>) is cancelled and left
  out of the result; an exception of \<^verbatim>\<open>cancel\<close> would leave the loop. Without
  \<^verbatim>\<open>with_times\<close> the job stands alone (\<open>None\<close> for the time).
\<close>

fun fetch_jobs ::
  "bool \<Rightarrow> (string \<times> int) list \<Rightarrow> world \<Rightarrow> (job \<times> datetime option) list outcome \<times> world" where
  "fetch_jobs with_times [] w = (Return [], w)"
| "fetch_jobs with_times ((ident, sched_time) # rest) w =
     (case job_records w ident of
        None \<Rightarrow>
          (case cancel (Ident ident) w of
             (Raise e, w1) \<Rightarrow> (Raise e, w1)
           | (Return u, w1) \<Rightarrow> fetch_jobs with_times rest w1)
      | Some j \<Rightarrow>
          (case fetch_jobs with_times rest w of
             (Raise e, w1) \<Rightarrow> (Raise e, w1)
           | (Return jobs, w1) \<Rightarrow>
               (Return ((j, if with_times then Some (from_unix sched_time) else None) # jobs), w1)))"

definition get_jobs ::
  "until option \<Rightarrow> bool \<Rightarrow> nat option \<Rightarrow> nat option \<Rightarrow> world \<Rightarrow>
   (job \<times> datetime option) list outcome \<times> world" where
  "get_jobs until with_times offset len w =
     (case zrangebyscore (scheduled_jobs w) 0 (rationalize_until until) offset len of
        Raise e \<Rightarrow> (Raise e, w)
      | Return job_ids \<Rightarrow> fetch_jobs with_times job_ids w)"

definition get_jobs_to_queue :: "bool \<Rightarrow> world \<Rightarrow> (job \<times> datetime option) list outcome \<times> world" where
  "get_jobs_to_queue with_times w =
     (let (now, w1) = utcnow w in get_jobs (Some (Epoch (to_unix now))) with_times None None w1)"

text \<open>The scheduled entries in range whose job record is missing.\<close>

definition orphans :: "until option \<Rightarrow> world \<Rightarrow> (string \<times> int) list" where
  "orphans until w =
     filter (\<lambda>e. in_range 0 (rationalize_until until) (snd e) \<and> job_records w (fst e) = None)
       (scheduled_jobs w)"

subsection \<open>Dispatching due jobs\<close>

text \<open>
  \<^verbatim>\<open>queue.enqueue_job(job)\<close> of RQ, on the queue named by the job's origin (the
  dispatch capability, an external collaborator): it either raises and leaves the store
  as it was, or saves the job record (with the \<^verbatim>\<open>meta\<close> the caller holds) and pushes
  the job's id to the queue.
\<close>

definition queue_enqueue_job :: "scheduler \<Rightarrow> string \<Rightarrow> job \<Rightarrow> world \<Rightarrow> unit outcome \<times> world" where
  "queue_enqueue_job self qname j w =
     (if dispatch_fails self j then (Raise DispatchError, w)
      else (Return (),
            w\<lparr>job_records := (job_records w)(job_id j \<mapsto> j),
               queues := (queues w)(qname := queues w qname @ [job_id j])\<rparr>))"

text \<open>"If job is a repeated job, decrement counter": the first step of \<^verbatim>\<open>enqueue_job\<close>.\<close>

definition decrement_repeat :: "job \<Rightarrow> job" where
  "decrement_repeat j =
     (if truthy_int (meta_repeat j) then j\<lparr>meta_repeat := Some (the (meta_repeat j) - 1)\<rparr> else j)"

text \<open>
  \<^verbatim>\<open>enqueue_job\<close>. The result carries the job object as the function leaves it
  (\<^verbatim>\<open>job.meta['repeat']\<close> is updated in place).
\<close>

definition enqueue_job :: "scheduler \<Rightarrow> job \<Rightarrow> world \<Rightarrow> job outcome \<times> world" where
  "enqueue_job self j w =
     (let ival = meta_interval j;
          rep = meta_repeat j;
          cron_string = meta_cron_string j;
          j1 = decrement_repeat j
      in case queue_enqueue_job self (origin j1) j1 w of
           (Raise e, w1) \<Rightarrow> (Raise e, w1)
         | (Return u, w1) \<Rightarrow>
             (let w2 = w1\<lparr>scheduled_jobs := zrem (scheduled_jobs w1) (job_id j1)\<rparr> in
              if truthy_int ival then
                (if rep \<noteq> None \<and> meta_repeat j1 = Some 0 then (Return j1, w2)
                 else
                   (let (now, w3) = utcnow w2
                    in (Return j1,
                        w3\<lparr>scheduled_jobs :=
                             zadd (scheduled_jobs w3) (to_unix now + the ival) (job_id j1)\<rparr>)))
              else if truthy_str cron_string then
                (if rep \<noteq> None \<and> meta_repeat j1 = Some 0 then (Return j1, w2)
                 else
                   (case get_next_scheduled_time self (the cron_string) w2 of
                      (Raise e, w3) \<Rightarrow> (Raise e, w3)
                    | (Return t, w3) \<Rightarrow>
                        (Return j1,
                         w3\<lparr>scheduled_jobs :=
                              zadd (scheduled_jobs w3) (to_unix t) (job_id j1)\<rparr>)))
              else (Return j1, w2)))"

text \<open>The \<^verbatim>\<open>for\<close> loop of \<^verbatim>\<open>enqueue_jobs\<close>: an exception leaves the loop.\<close>

fun enqueue_each :: "scheduler \<Rightarrow> job list \<Rightarrow> world \<Rightarrow> job list outcome \<times> world" where
  "enqueue_each self [] w = (Return [], w)"
| "enqueue_each self (j # rest) w =
     (case enqueue_job self j w of
        (Raise e, w1) \<Rightarrow> (Raise e, w1)
      | (Return j1, w1) \<Rightarrow>
          (case enqueue_each self rest w1 of
             (Raise e, w2) \<Rightarrow> (Raise e, w2)
           | (Return js, w2) \<Rightarrow> (Return (j1 # js), w2)))"

text \<open>\<^verbatim>\<open>connection.expire\<close> on the scheduler key: no effect on a key that is not there.\<close>

definition expire_scheduler_key :: "int \<Rightarrow> world \<Rightarrow> world" where
  "expire_scheduler_key seconds w =
     (if scheduler_hash w = None then w else w\<lparr>scheduler_expire := Some seconds\<rparr>)"

definition enqueue_jobs :: "scheduler \<Rightarrow> world \<Rightarrow> job list outcome \<times> world" where
  "enqueue_jobs self w =
     (case get_jobs_to_queue False w of
        (Raise e, w1) \<Rightarrow> (Raise e, w1)
      | (Return jobs, w1) \<Rightarrow>
          (case enqueue_each self (map fst jobs) w1 of
             (Raise e, w2) \<Rightarrow> (Raise e, w2)
           | (Return js, w2) \<Rightarrow>
               (Return js, expire_scheduler_key (py_int (interval self) + 10) w2)))"

subsection \<open>Liveness record and lock\<close>

definition exists_scheduler_key :: "world \<Rightarrow> bool" where
  "exists_scheduler_key w = (scheduler_hash w \<noteq> None)"

definition hexists_scheduler_key :: "string \<Rightarrow> world \<Rightarrow> bool" where
  "hexists_scheduler_key field w =
     (case scheduler_hash w of None \<Rightarrow> False | Some h \<Rightarrow> h field \<noteq> None)"

definition delete_scheduler_key :: "world \<Rightarrow> world" where
  "delete_scheduler_key w = w\<lparr>scheduler_hash := None, scheduler_expire := None\<rparr>"

definition hset_scheduler_key :: "string \<Rightarrow> real \<Rightarrow> world \<Rightarrow> world" where
  "hset_scheduler_key field v w =
     w\<lparr>scheduler_hash :=
         Some ((case scheduler_hash w of None \<Rightarrow> Map.empty | Some h \<Rightarrow> h)(field \<mapsto> v))\<rparr>"

definition register_birth :: "scheduler \<Rightarrow> world \<Rightarrow> unit outcome \<times> world" where
  "register_birth self w =
     (if exists_scheduler_key w \<and> \<not> hexists_scheduler_key ''death'' w
      then (Raise (ValueError ''There's already an active RQ scheduler''), w)
      else
        (let (now, w1) = time_time w
         in (Return (),
             expire_scheduler_key (py_int (interval self) + 10)
               (hset_scheduler_key ''birth'' now (delete_scheduler_key w1)))))"

definition register_death :: "world \<Rightarrow> world" where
  "register_death w =
     (let (now, w1) = time_time w
      in expire_scheduler_key 60 (hset_scheduler_key ''death'' now w1))"

text \<open>
  \<^verbatim>\<open>acquire_lock\<close>: \<^verbatim>\<open>SET key now EX expires NX\<close> writes only when the key is
  absent; its answer is kept in \<^verbatim>\<open>self._lock_acquired\<close>.
\<close>

definition acquire_lock :: "scheduler \<Rightarrow> world \<Rightarrow> bool \<times> world" where
  "acquire_lock self w =
     (let (now, w1) = time_time w;
          expires = py_int (interval self) + 10
      in case lock_key w1 of
           None \<Rightarrow> (True, w1\<lparr>lock_key := Some (now, expires), lock_acquired := True\<rparr>)
         | Some held \<Rightarrow> (False, w1\<lparr>lock_acquired := False\<rparr>))"

definition remove_lock :: "world \<Rightarrow> world" where
  "remove_lock w = (if lock_acquired w then w\<lparr>lock_key := None\<rparr> else w)"

subsection \<open>The run loop\<close>

text \<open>
  \<^verbatim>\<open>time.sleep\<close> of the Python standard library raises \<^verbatim>\<open>ValueError\<close> on a
  negative argument. Every call is recorded with its argument.
\<close>

definition time_sleep :: "real \<Rightarrow> world \<Rightarrow> unit outcome \<times> world" where
  "time_sleep seconds w =
     (let w1 = w\<lparr>sleep_calls := sleep_calls w @ [seconds]\<rparr>
      in if seconds < 0 then (Raise (ValueError ''sleep length must be non-negative''), w1)
         else (Return (), w1))"

text \<open>One pass through the body of \<^verbatim>\<open>while True\<close>, and how it ends.\<close>

datatype step = Break | Continue | Raised error

definition tick :: "scheduler \<Rightarrow> bool \<Rightarrow> world \<Rightarrow> step \<times> world" where
  "tick self burst w =
     (let (start_time, w1) = time_time w;
          (acquired, w2) = acquire_lock self w1;
          (st, w3) =
            (if acquired then
               (case enqueue_jobs self w2 of
                  (Raise e, w') \<Rightarrow> (Raised e, w')
                | (Return js, w') \<Rightarrow> (if burst then Break else Continue, w'))
             else (Continue, w2))
      in case st of
           Continue \<Rightarrow>
             (let (now, w4) = time_time w3
              in case time_sleep (interval self - (now - start_time)) w4 of
                   (Raise e, w5) \<Rightarrow> (Raised e, w5)
                 | (Return u, w5) \<Rightarrow> (Continue, w5))
         | other \<Rightarrow> (other, w3))"

text \<open>
  The loop runs until a \<^verbatim>\<open>break\<close> or an exception; \<open>None\<close> says that it was
  still running when the fuel was used up.
\<close>

fun run_loop :: "nat \<Rightarrow> scheduler \<Rightarrow> bool \<Rightarrow> world \<Rightarrow> (unit outcome \<times> world) option" where
  "run_loop 0 self burst w = None"
| "run_loop (Suc fuel) self burst w =
     (case tick self burst w of
        (Break, w1) \<Rightarrow> Some (Return (), w1)
      | (Raised e, w1) \<Rightarrow> Some (Raise e, w1)
      | (Continue, w1) \<Rightarrow> run_loop fuel self burst w1)"

text \<open>
  \<^verbatim>\<open>run\<close>: the birth is registered before the \<^verbatim>\<open>try\<close>; the \<^verbatim>\<open>finally\<close> clause
  runs however the loop ends. Signals are not modelled.
\<close>

definition run :: "nat \<Rightarrow> scheduler \<Rightarrow> bool \<Rightarrow> world \<Rightarrow> (unit outcome \<times> world) option" where
  "run fuel self burst w =
     (case register_birth self w of
        (Raise e, w1) \<Rightarrow> Some (Raise e, w1)
      | (Return u, w1) \<Rightarrow>
          (case run_loop fuel self burst w1 of
             None \<Rightarrow> None
           | Some (out, w2) \<Rightarrow> Some (out, register_death (remove_lock w2))))"

section \<open>A concrete scheduler and store\<close>

text \<open>
  The inputs of the concrete runs below: a scheduler on the queue \<^verbatim>\<open>default\<close> with
  the default poll interval of 60 seconds, whose dispatch queue refuses exactly the jobs
  of the function \<^verbatim>\<open>broken\<close> and whose only readable cron expression fires at every
  full minute; an empty store whose clock starts at 1000 and advances by ten seconds
  with every reading; and jobs as \<^verbatim>\<open>Job.create\<close> makes them.
\<close>

definition default_scheduler :: scheduler where
  "default_scheduler =
     \<lparr>queue_name = ''default'', interval = 60,
      dispatch_fails = (\<lambda>j. func j = ''broken''),
      croniter_next =
        (\<lambda>c now. if c = ''* * * * *'' then Some (of_int (60 * (\<lfloor>now\<rfloor> div 60 + 1))) else None)\<rparr>"

definition empty_world :: world where
  "empty_world =
     \<lparr>scheduler_hash = None, scheduler_expire = None, lock_key = None, scheduled_jobs = [],
      job_records = Map.empty, queues = (\<lambda>q. []), lock_acquired = False,
      clock = (\<lambda>n. 1000 + 10 * of_nat n), reads = 0, sleep_calls = []\<rparr>"

definition new_job :: "string \<Rightarrow> string \<Rightarrow> job" where
  "new_job ident f =
     \<lparr>job_id = ident, func = f, args = [], kwargs = [], origin = ''default'',
      result_ttl = None, job_ttl = None, job_timeout = None, description = None,
      meta_interval = None, meta_repeat = None, meta_cron_string = None\<rparr>"

text \<open>A job with a fixed interval and a repeat count, as \<^verbatim>\<open>schedule\<close> makes it.\<close>

definition periodic_job :: "string \<Rightarrow> int \<Rightarrow> int \<Rightarrow> job" where
  "periodic_job ident i n =
     (new_job ident ''f'')\<lparr>result_ttl := Some (- 1), meta_interval := Some i, meta_repeat := Some n\<rparr>"

text \<open>A job saved and scheduled at a score, as \<^verbatim>\<open>schedule\<close> leaves it.\<close>

definition with_job :: "job \<Rightarrow> int \<Rightarrow> world \<Rightarrow> world" where
  "with_job j sc w =
     w\<lparr>job_records := (job_records w)(job_id j \<mapsto> j),
       scheduled_jobs := zadd (scheduled_jobs w) sc (job_id j)\<rparr>"

text \<open>An entry of the schedule store whose job record is gone.\<close>

definition with_orphan :: "string \<Rightarrow> int \<Rightarrow> world \<Rightarrow> world" where
  "with_orphan ident sc w = w\<lparr>scheduled_jobs := zadd (scheduled_jobs w) sc ident\<rparr>"

section \<open>Facts about the sorted set\<close>

lemma zrem_absent: "zscore z m = None \<Longrightarrow> zrem z m = z"
  by (induction z) (auto simp: zrem_def zscore_def)

lemma zscore_zrem: "zscore (zrem z m) m' = (if m' = m then None else zscore z m')"
  by (induction z) (auto simp: zrem_def zscore_def)

lemma zrem_idem: "zrem (zrem z m) m = zrem z m"
  by (simp add: zrem_def)

lemma filter_member_insort:
  "m \<notin> fst ` set xs \<Longrightarrow> filter (\<lambda>e. fst e = m) (insort_key zkey (m, sc) xs) = [(m, sc)]"
  by (induction xs) (auto simp: filter_empty_conv)

lemma filter_other_insort:
  "filter (\<lambda>e. fst e \<noteq> m) (insort_key zkey (m, sc) xs) = filter (\<lambda>e. fst e \<noteq> m) xs"
  by (induction xs) auto

lemma entries_zadd: "filter (\<lambda>e. fst e = m) (zadd z sc m) = [(m, sc)]"
  unfolding zadd_def by (rule filter_member_insort) (auto simp: zrem_def)

lemma zrem_zadd: "zrem (zadd z sc m) m = zrem z m"
  by (simp add: zadd_def zrem_def filter_other_insort)

lemma zadd_zadd: "zadd (zadd z sc m) sc' m = zadd z sc' m"
  by (simp add: zadd_def zrem_def filter_other_insort)

lemma map_of_insort_fresh:
  "m \<notin> fst ` set xs \<Longrightarrow>
     map_of (insort_key zkey (m, sc) xs) m' = (if m' = m then Some sc else map_of xs m')"
  by (induction xs) auto

lemma zscore_zadd: "zscore (zadd z sc m) m' = (if m' = m then Some sc else zscore z m')"
proof -
  have "m \<notin> fst ` set (zrem z m)"
    by (auto simp: zrem_def)
  then have "map_of (zadd z sc m) m' = (if m' = m then Some sc else map_of (zrem z m) m')"
    unfolding zadd_def by (rule map_of_insort_fresh)
  then show ?thesis
    using zscore_zrem [of z m m'] by (simp add: zscore_def)
qed

section \<open>Facts about listing\<close>

lemma fetch_jobs_eq:
  "fetch_jobs wt ids w =
     (Return (map (\<lambda>e. (the (job_records w (fst e)), if wt then Some (from_unix (snd e)) else None))
                (filter (\<lambda>e. job_records w (fst e) \<noteq> None) ids)),
      w\<lparr>scheduled_jobs :=
          filter (\<lambda>e. fst e \<notin> fst ` {x \<in> set ids. job_records w (fst x) = None}) (scheduled_jobs w)\<rparr>)"
proof (induction wt ids w rule: fetch_jobs.induct)
  case (1 wt w)
  show ?case by simp
next
  case (2 wt ident sched_time rest w)
  show ?case
  proof (cases "job_records w ident")
    case None
    let ?w1 = "w\<lparr>scheduled_jobs := zrem (scheduled_jobs w) ident\<rparr>"
    have c: "cancel (Ident ident) w = (Return (), ?w1)"
      by (simp add: cancel_def)
    have f: "filter (\<lambda>e. fst e \<notin> fst ` {x \<in> set rest. job_records w (fst x) = None})
            (filter (\<lambda>e. fst e \<noteq> ident) (scheduled_jobs w))
        = filter (\<lambda>e. fst e \<notin> fst ` {x \<in> set ((ident, sched_time) # rest).
            job_records w (fst x) = None}) (scheduled_jobs w)"
      using None by (simp, intro filter_cong refl) (force simp: image_iff)
    from "2.IH"(1) [OF None c [symmetric] refl] None c f show ?thesis
      by (simp add: zrem_def)
  next
    case (Some j)
    have "{x \<in> set ((ident, sched_time) # rest). job_records w (fst x) = None}
        = {x \<in> set rest. job_records w (fst x) = None}"
      using Some by auto
    with Some "2.IH"(2) [OF Some] show ?thesis by simp
  qed
qed

lemma py_int_grace: "x < of_int (py_int x + 10)"
  unfolding py_int_def by (cases "0 \<le> x") (simp_all, linarith+)

section \<open>Facts about firing a job\<close>

lemma decrement_repeat_id [simp]: "job_id (decrement_repeat j) = job_id j"
  and decrement_repeat_origin [simp]: "origin (decrement_repeat j) = origin j"
  by (simp_all add: decrement_repeat_def)

lemma decrement_repeat_zero:
  "meta_repeat (decrement_repeat j) = Some 0 \<Longrightarrow> meta_repeat j \<noteq> None"
  by (cases "meta_repeat j") (auto simp: decrement_repeat_def split: if_splits)

lemma enqueue_job_dispatch_fails:
  "dispatch_fails self (decrement_repeat j) \<Longrightarrow> enqueue_job self j w = (Raise DispatchError, w)"
  by (simp add: enqueue_job_def queue_enqueue_job_def Let_def)

lemma enqueue_job_exhausted:
  assumes "\<not> dispatch_fails self (decrement_repeat j)"
    and "meta_repeat (decrement_repeat j) = Some 0"
  shows "enqueue_job self j w =
     (Return (decrement_repeat j),
      w\<lparr>job_records := (job_records w)(job_id j \<mapsto> decrement_repeat j),
        queues := (queues w)(origin j := queues w (origin j) @ [job_id j]),
        scheduled_jobs := zrem (scheduled_jobs w) (job_id j)\<rparr>)"
proof -
  from assms(2) have "meta_repeat j \<noteq> None" by (rule decrement_repeat_zero)
  with assms show ?thesis
    by (simp add: enqueue_job_def queue_enqueue_job_def Let_def)
qed

lemma enqueue_job_returns_decremented:
  "enqueue_job self j w = (Return j', w') \<Longrightarrow> j' = decrement_repeat j"
  by (auto simp: enqueue_job_def queue_enqueue_job_def get_next_scheduled_time_def utcnow_def
      time_time_def Let_def split: if_splits option.splits)

lemma enqueue_job_frame:
  assumes "enqueue_job self j w = (out, w')"
  shows "scheduler_expire w' = scheduler_expire w"
    and "m \<noteq> job_id j \<Longrightarrow> zscore (scheduled_jobs w') m = zscore (scheduled_jobs w) m"
    and "m \<noteq> job_id j \<Longrightarrow> count_list (queues w' q) m = count_list (queues w q) m"
  using assms
  by (auto simp: enqueue_job_def queue_enqueue_job_def get_next_scheduled_time_def utcnow_def
      time_time_def Let_def zscore_zrem zscore_zadd split: if_splits option.splits)

lemma enqueue_each_frame:
  assumes "enqueue_each self js w = (out, w')"
  shows "scheduler_expire w' = scheduler_expire w
     \<and> (m \<notin> job_id ` set js \<longrightarrow>
          zscore (scheduled_jobs w') m = zscore (scheduled_jobs w) m
          \<and> count_list (queues w' q) m = count_list (queues w q) m)"
  using assms
proof (induction js arbitrary: w out w')
  case Nil
  then show ?case by simp
next
  case (Cons j js)
  obtain o1 w1 where j: "enqueue_job self j w = (o1, w1)"
    by (cases "enqueue_job self j w")
  note f = enqueue_job_frame [OF j]
  show ?case
  proof (cases o1)
    case (Raise e)
    with Cons.prems j have "w' = w1" by simp
    with f show ?thesis by simp
  next
    case (Return j1)
    obtain o2 w2 where r: "enqueue_each self js w1 = (o2, w2)"
      by (cases "enqueue_each self js w1")
    with Cons.prems j Return have "w' = w2"
      by (cases o2) simp_all
    with Cons.IH [OF r] f show ?thesis by simp
  qed
qed

lemma enqueue_each_stops:
  assumes "enqueue_each self pre w = (Return served, w2)"
    and "enqueue_job self j w2 = (Raise e, w3)"
  shows "enqueue_each self (pre @ j # post) w = (Raise e, w3)"
  using assms
proof (induction pre arbitrary: w served)
  case Nil
  then show ?case by simp
next
  case (Cons k pre)
  from Cons.prems(1) obtain k1 w1 served1 where
    k: "enqueue_job self k w = (Return k1, w1)"
    and r: "enqueue_each self pre w1 = (Return served1, w2)"
    by (auto split: prod.splits outcome.splits)
  from Cons.IH [OF r Cons.prems(2)] k show ?case by simp
qed

text \<open>Concrete runs are evaluated by unfolding the definitions.\<close>

lemmas run_simps = enqueue_jobs_def get_jobs_to_queue_def get_jobs_def zrangebyscore_def
  enqueue_job_def queue_enqueue_job_def decrement_repeat_def expire_scheduler_key_def Let_def
  default_scheduler_def periodic_job_def new_job_def with_job_def empty_world_def
  zadd_def zrem_def zkey_def utcnow_def time_time_def to_unix_def py_int_def cancel_def

lemma pass1:
  "enqueue_jobs default_scheduler (with_job (periodic_job ''a'' 10 2) 1000 empty_world)
     = (Return [periodic_job ''a'' 10 1],
        empty_world\<lparr>job_records := [''a'' \<mapsto> periodic_job ''a'' 10 1],
          queues := (\<lambda>q. [])(''default'' := [''a'']),
          scheduled_jobs := [(''a'', 1020)], reads := 2\<rparr>)"
  by (simp add: run_simps)

lemma pass2:
  "enqueue_jobs default_scheduler (empty_world\<lparr>job_records := [''a'' \<mapsto> periodic_job ''a'' 10 1],
          queues := (\<lambda>q. [])(''default'' := [''a'']),
          scheduled_jobs := [(''a'', 1020)], reads := 2\<rparr>)
     = (Return [periodic_job ''a'' 10 0],
        empty_world\<lparr>job_records := [''a'' \<mapsto> periodic_job ''a'' 10 0],
          queues := (\<lambda>q. [])(''default'' := [''a'', ''a'']),
          scheduled_jobs := [], reads := 3\<rparr>)"
  by (simp add: run_simps)

lemma pass3:
  "enqueue_jobs default_scheduler (empty_world\<lparr>job_records := [''a'' \<mapsto> periodic_job ''a'' 10 0],
          queues := (\<lambda>q. [])(''default'' := [''a'', ''a'']),
          scheduled_jobs := [], reads := 3\<rparr>)
     = (Return [],
        empty_world\<lparr>job_records := [''a'' \<mapsto> periodic_job ''a'' 10 0],
          queues := (\<lambda>q. [])(''default'' := [''a'', ''a'']),
          scheduled_jobs := [], reads := 4\<rparr>)"
  by (simp add: run_simps)

section \<open>Facts about changing the execution time\<close>

text \<open>
  With no other client at work the function does what its docstring says: it raises
  for a job that is not scheduled and writes nothing, and it moves a scheduled job to
  the new time.
\<close>

lemma change_execution_time_absent:
  "zscore (scheduled_jobs w) (job_id j) = None \<Longrightarrow>
   change_execution_time j date_time [] w
     = (Raise (ValueError ''Job not in scheduled jobs queue''), w)"
  by (simp add: try_change_def)

lemma change_execution_time_quiet:
  "zscore (scheduled_jobs w) (job_id j) \<noteq> None \<Longrightarrow>
   change_execution_time j date_time [] w
     = (Return (), w\<lparr>scheduled_jobs := zadd (scheduled_jobs w) (to_unix date_time) (job_id j)\<rparr>)"
  by (simp add: try_change_def)

text \<open>
  When a command does raise \<^verbatim>\<open>WatchError\<close>, the handler checks membership again:
  a job that was removed in the meantime gives the error and no write, a job that is
  still scheduled gives a retry.
\<close>

lemma change_execution_time_conflict_absent:
  "change_execution_time j date_time (WatchFails # Cancelled (job_id j) # script) w
     = (Raise (ValueError ''Job not in scheduled jobs queue''),
        w\<lparr>scheduled_jobs := zrem (scheduled_jobs w) (job_id j)\<rparr>)"
  by (simp add: try_change_def on_watch_error_def zscore_zrem)

lemma change_execution_time_conflict_retry:
  "zscore (scheduled_jobs w) (job_id j) \<noteq> None \<Longrightarrow>
   change_execution_time j date_time (WatchFails # Quiet # script) w
     = change_execution_time j date_time script w"
  by (subst change_execution_time.simps)
    (auto simp add: try_change_def on_watch_error_def simp del: change_execution_time.simps)

section \<open>Facts about the run loop\<close>

text \<open>
  A tick that finds the lock taken only sleeps. The argument of \<^verbatim>\<open>time.sleep\<close> is
  the poll interval minus the time between the two clock readings of the tick, whatever
  its sign.
\<close>

lemma tick_waiting_for_lock:
  assumes "lock_key w \<noteq> None"
  shows "tick self burst w =
     (if interval self - (clock w (reads w + 2) - clock w (reads w)) < 0
      then Raised (ValueError ''sleep length must be non-negative'') else Continue,
      w\<lparr>reads := reads w + 3, lock_acquired := False,
        sleep_calls := sleep_calls w @ [interval self - (clock w (reads w + 2) - clock w (reads w))]\<rparr>)"
  using assms
  by (auto simp: tick_def acquire_lock_def time_time_def time_sleep_def Let_def
      split: option.splits)

text \<open>
  With the default interval of 60 seconds and a tick of 30 seconds the scheduler sleeps
  for the 30 seconds that remain, and the loop goes on.
\<close>

lemma run_sleeps_remaining:
  "run 1 default_scheduler False empty_world = None
   \<and> tick default_scheduler False (snd (register_birth default_scheduler empty_world))
       = (Continue,
          empty_world\<lparr>scheduler_hash := Some [''birth'' \<mapsto> 1000], scheduler_expire := Some 70,
            lock_key := Some (1020, 70), lock_acquired := True, reads := 5,
            sleep_calls := [60 - (1040 - 1010)]\<rparr>)"
  by (simp add: run_def tick_def register_birth_def register_death_def acquire_lock_def
      remove_lock_def time_sleep_def exists_scheduler_key_def hexists_scheduler_key_def
      delete_scheduler_key_def hset_scheduler_key_def run_simps)

section \<open>Insertion is an upsert\<close>

text \<open>
  Claim C9. Two calls of \<^verbatim>\<open>enqueue_at\<close> with the same \<^verbatim>\<open>job_id\<close>, whatever the
  two times and the other arguments, leave exactly one entry for that id in the
  schedule store, with the score of the later call; the entries of other jobs are
  untouched, and the schedule store is the one the later call alone would have left (so
  repeating an insertion changes nothing).
\<close>

theorem enqueue_at_upsert:
  "let w1 = snd (enqueue_at self t1 f1 as1 kw1 tmo1 (Some i) jttl1 jrttl1 fresh1 w);
       w2 = snd (enqueue_at self t2 f2 as2 kw2 tmo2 (Some i) jttl2 jrttl2 fresh2 w1)
   in filter (\<lambda>e. fst e = i) (scheduled_jobs w2) = [(i, to_unix t2)]
      \<and> zscore (scheduled_jobs w2) i = Some (to_unix t2)
      \<and> filter (\<lambda>e. fst e \<noteq> i) (scheduled_jobs w2) = filter (\<lambda>e. fst e \<noteq> i) (scheduled_jobs w)
      \<and> scheduled_jobs w2
          = scheduled_jobs (snd (enqueue_at self t2 f2 as2 kw2 tmo2 (Some i) jttl2 jrttl2 fresh2 w))"
  using zrem_zadd [of "scheduled_jobs w" "to_unix t2" i]
  by (simp add: enqueue_at_def create_job_def Let_def entries_zadd zscore_zadd zadd_zadd zrem_def)

theorem enqueue_at_upsert_witness:
  "scheduled_jobs (snd (enqueue_at default_scheduler 1500 ''f'' [] [] None (Some ''a'') None None ''u2''
      (snd (enqueue_at default_scheduler 1200 ''f'' [] [] None (Some ''a'') None None ''u1''
         (with_job (new_job ''b'' ''g'') 1300 empty_world)))))
   = [(''b'', 1300), (''a'', 1500)]"
  using enqueue_at_upsert [of default_scheduler 1200 "''f''" "[]" "[]" None "''a''" None None "''u1''"
      "with_job (new_job ''b'' ''g'') 1300 empty_world" 1500 "''f''" "[]" "[]" None None None "''u2''"]
  by (simp add: enqueue_at_def create_job_def Let_def with_job_def new_job_def empty_world_def
      default_scheduler_def zadd_def zrem_def zkey_def to_unix_def)

section \<open>Cancelling is idempotent\<close>

text \<open>
  Claim C10. For every job id, every job instance and every world, \<^verbatim>\<open>cancel\<close>
  returns normally: it never raises. Cancelling an instance is cancelling its id.
  Cancelling an id that is not scheduled leaves the whole world unchanged. Cancelling
  an id removes every entry of that id from the schedule store, so the id is no longer
  scheduled, while every other entry stays where it was with its score and nothing
  else in the world changes. A second cancel of the same id returns normally again and
  leaves the world as the first one left it.
\<close>

theorem cancel_removes_only_that_job:
  "fst (cancel (Ident i) w) = Return ()
   \<and> fst (cancel (Instance j) w) = Return ()
   \<and> cancel (Instance j) w = cancel (Ident (job_id j)) w
   \<and> (zscore (scheduled_jobs w) i = None \<longrightarrow> cancel (Ident i) w = (Return (), w))
   \<and> filter (\<lambda>e. fst e = i) (scheduled_jobs (snd (cancel (Ident i) w))) = []
   \<and> zscore (scheduled_jobs (snd (cancel (Ident i) w))) i = None
   \<and> filter (\<lambda>e. fst e \<noteq> i) (scheduled_jobs (snd (cancel (Ident i) w)))
       = filter (\<lambda>e. fst e \<noteq> i) (scheduled_jobs w)
   \<and> (\<forall>m. m \<noteq> i \<longrightarrow>
         zscore (scheduled_jobs (snd (cancel (Ident i) w))) m = zscore (scheduled_jobs w) m)
   \<and> snd (cancel (Ident i) w) = w\<lparr>scheduled_jobs := scheduled_jobs (snd (cancel (Ident i) w))\<rparr>
   \<and> cancel (Ident i) (snd (cancel (Ident i) w)) = cancel (Ident i) w"
proof -
  have c: "cancel (Ident i) w = (Return (), w\<lparr>scheduled_jobs := zrem (scheduled_jobs w) i\<rparr>)"
    by (simp add: cancel_def)
  have 1: "fst (cancel (Ident i) w) = Return ()"
    by (simp add: c)
  have 2: "fst (cancel (Instance j) w) = Return ()"
    by (simp add: cancel_def)
  have 3: "cancel (Instance j) w = cancel (Ident (job_id j)) w"
    by (simp add: cancel_def)
  have 4: "zscore (scheduled_jobs w) i = None \<longrightarrow> cancel (Ident i) w = (Return (), w)"
    by (simp add: c zrem_absent)
  have 5: "filter (\<lambda>e. fst e = i) (scheduled_jobs (snd (cancel (Ident i) w))) = []"
    by (simp add: c zrem_def)
  have 6: "zscore (scheduled_jobs (snd (cancel (Ident i) w))) i = None"
    by (simp add: c zscore_zrem)
  have 7: "filter (\<lambda>e. fst e \<noteq> i) (scheduled_jobs (snd (cancel (Ident i) w)))
      = filter (\<lambda>e. fst e \<noteq> i) (scheduled_jobs w)"
    by (simp add: c zrem_def)
  have 8: "\<forall>m. m \<noteq> i \<longrightarrow>
      zscore (scheduled_jobs (snd (cancel (Ident i) w))) m = zscore (scheduled_jobs w) m"
    by (simp add: c zscore_zrem)
  have 9: "snd (cancel (Ident i) w) = w\<lparr>scheduled_jobs := scheduled_jobs (snd (cancel (Ident i) w))\<rparr>"
    by (simp add: c)
  have 10: "cancel (Ident i) (snd (cancel (Ident i) w)) = cancel (Ident i) w"
    by (simp add: cancel_def zrem_idem)
  from 1 2 3 4 5 6 7 8 9 10 show ?thesis by blast
qed

theorem cancel_witness:
  "cancel (Ident ''c'') (with_orphan ''a'' 10 (with_orphan ''b'' 20 empty_world))
     = (Return (), with_orphan ''a'' 10 (with_orphan ''b'' 20 empty_world))
   \<and> scheduled_jobs (with_orphan ''a'' 10 (with_orphan ''b'' 20 empty_world))
       = [(''a'', 10), (''b'', 20)]
   \<and> cancel (Ident ''a'') (with_orphan ''a'' 10 (with_orphan ''b'' 20 empty_world))
       = (Return (), with_orphan ''b'' 20 empty_world)
   \<and> scheduled_jobs (with_orphan ''b'' 20 empty_world) = [(''b'', 20)]
   \<and> cancel (Instance (new_job ''b'' ''f'')) (with_orphan ''a'' 10 (with_orphan ''b'' 20 empty_world))
       = (Return (), with_orphan ''a'' 10 empty_world)
   \<and> scheduled_jobs (with_orphan ''a'' 10 empty_world) = [(''a'', 10)]
   \<and> cancel (Ident ''a'') (with_orphan ''b'' 20 empty_world)
       = (Return (), with_orphan ''b'' 20 empty_world)"
  using
    cancel_removes_only_that_job [of "''c''" "with_orphan ''a'' 10 (with_orphan ''b'' 20 empty_world)"
      "new_job ''b'' ''f''"]
    cancel_removes_only_that_job [of "''a''" "with_orphan ''a'' 10 (with_orphan ''b'' 20 empty_world)"
      "new_job ''b'' ''f''"]
  by (simp add: cancel_def with_orphan_def empty_world_def new_job_def
      zadd_def zrem_def zkey_def zscore_def)

section \<open>Validation before any write\<close>

text \<open>
  Claim C5. \<^verbatim>\<open>schedule\<close> with a non-zero \<^verbatim>\<open>repeat\<close> and no \<^verbatim>\<open>interval\<close> raises
  the validation error, and the world it leaves is the world it found: no job record
  was saved and no entry was added to the schedule store.
\<close>

theorem schedule_repeat_without_interval:
  "r \<noteq> 0 \<Longrightarrow>
   schedule self scheduled_time f as kw None (Some r) rttl jttl tmo ident descr qname fresh w
     = (Raise (ValueError ''Can't repeat a job without interval argument''), w)"
  by (simp add: schedule_def create_job_def Let_def)

theorem schedule_repeat_without_interval_witness:
  "schedule default_scheduler 1500 ''f'' [] [] None (Some 3) None None None None None None ''u1'' empty_world
     = (Raise (ValueError ''Can't repeat a job without interval argument''), empty_world)
   \<and> job_records empty_world = Map.empty \<and> scheduled_jobs empty_world = []"
  using schedule_repeat_without_interval [of 3 default_scheduler 1500 "''f''" "[]" "[]" None None None None None None "''u1''" empty_world]
  by (simp add: empty_world_def)

section \<open>Registering the birth\<close>

text \<open>
  Claim C8. \<^verbatim>\<open>register_birth\<close> raises exactly when the scheduler key holds a hash
  with no \<^verbatim>\<open>death\<close> field, and then writes nothing. Otherwise it returns, the hash
  it leaves holds the fresh birth time and nothing else (a stale record is gone), and
  the time to live of the key is the poll interval, cut to whole seconds, plus ten
  seconds, which is more than the poll interval.
\<close>

theorem register_birth_already_running:
  "((\<exists>e. fst (register_birth self w) = Raise e)
      \<longleftrightarrow> (\<exists>h. scheduler_hash w = Some h \<and> h ''death'' = None))
   \<and> ((\<exists>h. scheduler_hash w = Some h \<and> h ''death'' = None) \<longrightarrow>
        register_birth self w = (Raise (ValueError ''There's already an active RQ scheduler''), w))
   \<and> (\<not> (\<exists>h. scheduler_hash w = Some h \<and> h ''death'' = None) \<longrightarrow>
        fst (register_birth self w) = Return ()
        \<and> scheduler_hash (snd (register_birth self w)) = Some [''birth'' \<mapsto> clock w (reads w)]
        \<and> scheduler_expire (snd (register_birth self w)) = Some (py_int (interval self) + 10)
        \<and> interval self < of_int (py_int (interval self) + 10))"
  using py_int_grace [of "interval self"]
  by (auto simp: register_birth_def exists_scheduler_key_def hexists_scheduler_key_def
      delete_scheduler_key_def hset_scheduler_key_def expire_scheduler_key_def time_time_def
      split: option.splits)

theorem register_birth_witness:
  "register_birth default_scheduler empty_world
     = (Return (),
        empty_world\<lparr>scheduler_hash := Some [''birth'' \<mapsto> 1000], scheduler_expire := Some 70,
          reads := 1\<rparr>)
   \<and> fst (register_birth default_scheduler (snd (register_birth default_scheduler empty_world)))
       = Raise (ValueError ''There's already an active RQ scheduler'')"
  using register_birth_already_running [of default_scheduler empty_world]
  by (simp add: register_birth_def exists_scheduler_key_def hexists_scheduler_key_def
      delete_scheduler_key_def hset_scheduler_key_def expire_scheduler_key_def time_time_def
      py_int_def default_scheduler_def empty_world_def)

section \<open>Counting and listing agree up to orphans\<close>

text \<open>
  Claim C3, as stated, fails: an entry of the schedule store whose job record is
  missing is counted by \<^verbatim>\<open>count\<close> and left out (and removed) by \<^verbatim>\<open>get_jobs\<close>.
\<close>

theorem count_get_jobs_counterexample:
  "count (Some (Epoch 1500)) (with_orphan ''a'' 1200 empty_world) = 1
   \<and> get_jobs (Some (Epoch 1500)) False None None (with_orphan ''a'' 1200 empty_world)
       = (Return [], empty_world)
   \<and> count (Some (Epoch 1500)) (with_orphan ''a'' 1200 empty_world)
       \<noteq> length ([] :: (job \<times> datetime option) list)"
  by (simp add: count_def zcount_def get_jobs_def zrangebyscore_def with_orphan_def empty_world_def
      zadd_def zrem_def cancel_def)

text \<open>
  Claim C3, amended. For every world and every bound, \<^verbatim>\<open>get_jobs\<close> without offset
  and length returns a list, and \<^verbatim>\<open>count\<close> for the same bound is the length of that
  list plus the number of entries in range whose job record is missing. So the two
  agree whenever no entry in range is orphaned; and after \<^verbatim>\<open>get_jobs\<close>, which has
  removed the orphans, \<^verbatim>\<open>count\<close> is the length of the list it returned.
\<close>

theorem count_get_jobs:
  "\<exists>jobs w'. get_jobs until with_times None None w = (Return jobs, w')
      \<and> count until w = length jobs + length (orphans until w)
      \<and> count until w' = length jobs
      \<and> orphans until w' = []"
proof -
  define ids where "ids = filter (\<lambda>e. in_range 0 (rationalize_until until) (snd e)) (scheduled_jobs w)"
  define jobs where "jobs = map (\<lambda>e. (the (job_records w (fst e)),
      if with_times then Some (from_unix (snd e)) else None))
    (filter (\<lambda>e. job_records w (fst e) \<noteq> None) ids)"
  define w' where "w' = w\<lparr>scheduled_jobs :=
      filter (\<lambda>e. fst e \<notin> fst ` {x \<in> set ids. job_records w (fst x) = None}) (scheduled_jobs w)\<rparr>"
  have g: "get_jobs until with_times None None w = (Return jobs, w')"
    by (simp add: get_jobs_def zrangebyscore_def fetch_jobs_eq ids_def jobs_def w'_def Let_def)
  have len: "length jobs = length (filter (\<lambda>e. job_records w (fst e) \<noteq> None) ids)"
    by (simp add: jobs_def)
  have orph: "orphans until w = filter (\<lambda>e. job_records w (fst e) = None) ids"
    by (auto simp: orphans_def ids_def intro!: filter_cong)
  have "length ids = length (filter (\<lambda>e. job_records w (fst e) \<noteq> None) ids)
      + length (filter (\<lambda>e. \<not> job_records w (fst e) \<noteq> None) ids)"
    by (rule sum_length_filter_compl [symmetric])
  then have c: "count until w = length jobs + length (orphans until w)"
    by (simp add: count_def zcount_def len orph ids_def)
  have sch: "scheduled_jobs w'
      = filter (\<lambda>e. fst e \<notin> fst ` {x \<in> set ids. job_records w (fst x) = None}) (scheduled_jobs w)"
    by (simp add: w'_def)
  have rec: "job_records w' = job_records w"
    by (simp add: w'_def)
  have keep: "filter (\<lambda>e. in_range 0 (rationalize_until until) (snd e)) (scheduled_jobs w')
      = filter (\<lambda>e. job_records w (fst e) \<noteq> None) ids"
    unfolding sch ids_def by (auto simp: image_iff intro!: filter_cong)
  have c': "count until w' = length jobs"
    by (simp add: count_def zcount_def keep len)
  have "orphans until w' = filter (\<lambda>e. job_records w (fst e) = None)
      (filter (\<lambda>e. in_range 0 (rationalize_until until) (snd e)) (scheduled_jobs w'))"
    by (auto simp: orphans_def rec intro!: filter_cong)
  then have o': "orphans until w' = []"
    unfolding keep by (auto simp: filter_empty_conv)
  from g c c' o' show ?thesis by blast
qed

theorem count_get_jobs_witness:
  "get_jobs None True None None (with_orphan ''a'' 1200 (with_job (new_job ''b'' ''f'') 1300 empty_world))
     = (Return [(new_job ''b'' ''f'', Some 1300)], with_job (new_job ''b'' ''f'') 1300 empty_world)
   \<and> count None (with_orphan ''a'' 1200 (with_job (new_job ''b'' ''f'') 1300 empty_world)) = 2
   \<and> orphans None (with_orphan ''a'' 1200 (with_job (new_job ''b'' ''f'') 1300 empty_world)) = [(''a'', 1200)]
   \<and> count None (with_job (new_job ''b'' ''f'') 1300 empty_world) = 1"
  using count_get_jobs [of None True "with_orphan ''a'' 1200 (with_job (new_job ''b'' ''f'') 1300 empty_world)"]
  by (simp add: count_def zcount_def get_jobs_def zrangebyscore_def with_orphan_def with_job_def
      empty_world_def new_job_def orphans_def zadd_def zrem_def zkey_def cancel_def from_unix_def)

section \<open>An exhausted repeat counter is never reinserted\<close>

text \<open>
  Claim C7. Whatever the recurrence of the job (interval, cron, both or none): a firing
  that returns with the job's repeat counter at 0 has removed the job's entry from the
  schedule store and inserted nothing for it, so the job is no longer scheduled. And
  when \<^verbatim>\<open>enqueue_job\<close> raises although the counter it computed is 0 (the dispatch
  failed), it has written nothing at all. In neither case is the job inserted again.
\<close>

theorem enqueue_job_never_reinserts_exhausted:
  "(enqueue_job self j w = (Return j', w') \<and> meta_repeat j' = Some 0 \<longrightarrow>
      scheduled_jobs w' = zrem (scheduled_jobs w) (job_id j) \<and> \<not> contains (Instance j) w')
   \<and> (enqueue_job self j w = (Raise e, w') \<and> meta_repeat (decrement_repeat j) = Some 0 \<longrightarrow>
      w' = w)"
proof (intro conjI impI)
  assume a: "enqueue_job self j w = (Return j', w') \<and> meta_repeat j' = Some 0"
  then have j': "j' = decrement_repeat j"
    by (auto dest: enqueue_job_returns_decremented)
  with a have z: "meta_repeat (decrement_repeat j) = Some 0" by simp
  have "\<not> dispatch_fails self (decrement_repeat j)"
    using a by (auto simp: enqueue_job_dispatch_fails)
  from enqueue_job_exhausted [OF this z, of w] a
  show "scheduled_jobs w' = zrem (scheduled_jobs w) (job_id j)"
    and "\<not> contains (Instance j) w'"
    by (auto simp: contains_def zscore_zrem)
next
  assume a: "enqueue_job self j w = (Raise e, w') \<and> meta_repeat (decrement_repeat j) = Some 0"
  show "w' = w"
  proof (cases "dispatch_fails self (decrement_repeat j)")
    case True
    with a show ?thesis by (simp add: enqueue_job_dispatch_fails)
  next
    case False
    with a enqueue_job_exhausted [OF False, of w] show ?thesis by simp
  qed
qed

theorem enqueue_job_never_reinserts_exhausted_witness:
  "enqueue_job default_scheduler (periodic_job ''a'' 10 1)
       (with_job (periodic_job ''a'' 10 1) 990 empty_world)
     = (Return (periodic_job ''a'' 10 0),
        empty_world\<lparr>job_records := [''a'' \<mapsto> periodic_job ''a'' 10 0],
          queues := (\<lambda>q. [])(''default'' := [''a''])\<rparr>)
   \<and> meta_repeat (periodic_job ''a'' 10 0) = Some 0
   \<and> \<not> contains (Instance (periodic_job ''a'' 10 1))
        (empty_world\<lparr>job_records := [''a'' \<mapsto> periodic_job ''a'' 10 0],
          queues := (\<lambda>q. [])(''default'' := [''a''])\<rparr>)"
proof -
  have r: "enqueue_job default_scheduler (periodic_job ''a'' 10 1)
       (with_job (periodic_job ''a'' 10 1) 990 empty_world)
     = (Return (periodic_job ''a'' 10 0),
        empty_world\<lparr>job_records := [''a'' \<mapsto> periodic_job ''a'' 10 0],
          queues := (\<lambda>q. [])(''default'' := [''a''])\<rparr>)"
    by (simp add: run_simps)
  have z: "meta_repeat (periodic_job ''a'' 10 0) = Some 0"
    by (simp add: periodic_job_def)
  from enqueue_job_never_reinserts_exhausted [of default_scheduler "periodic_job ''a'' 10 1"
      "with_job (periodic_job ''a'' 10 1) 990 empty_world" "periodic_job ''a'' 10 0"
      "empty_world\<lparr>job_records := [''a'' \<mapsto> periodic_job ''a'' 10 0],
          queues := (\<lambda>q. [])(''default'' := [''a''])\<rparr>"] r z
  show ?thesis by simp
qed

section \<open>Firing a job with a fixed interval and a repeat count\<close>

text \<open>
  Claim C4, as stated, fails for the interval 0: \<^verbatim>\<open>schedule\<close> accepts it (the
  check is \<^verbatim>\<open>interval is None\<close>), and \<^verbatim>\<open>enqueue_job\<close> tests \<^verbatim>\<open>if interval:\<close>,
  so with two repeats left the job is dispatched once, its counter goes to 1, and it is
  not reinserted.
\<close>

theorem enqueue_job_interval_zero_counterexample:
  "fst (enqueue_job default_scheduler (periodic_job ''a'' 0 2)
          (with_job (periodic_job ''a'' 0 2) 990 empty_world))
     = Return (periodic_job ''a'' 0 1)
   \<and> meta_repeat (periodic_job ''a'' 0 1) = Some 1
   \<and> queues (snd (enqueue_job default_scheduler (periodic_job ''a'' 0 2)
          (with_job (periodic_job ''a'' 0 2) 990 empty_world))) ''default'' = [''a'']
   \<and> scheduled_jobs (snd (enqueue_job default_scheduler (periodic_job ''a'' 0 2)
          (with_job (periodic_job ''a'' 0 2) 990 empty_world))) = []
   \<and> \<not> contains (Instance (periodic_job ''a'' 0 2))
        (snd (enqueue_job default_scheduler (periodic_job ''a'' 0 2)
          (with_job (periodic_job ''a'' 0 2) 990 empty_world)))"
  by (simp add: enqueue_job_def queue_enqueue_job_def decrement_repeat_def Let_def contains_def
      zscore_def default_scheduler_def periodic_job_def new_job_def with_job_def empty_world_def
      zadd_def zrem_def zkey_def)

lemma fixed_interval_firing:
  assumes "meta_interval j = Some i" and "i \<noteq> 0"
    and "meta_repeat j = Some n" and "1 \<le> n"
    and "\<not> dispatch_fails self (j\<lparr>meta_repeat := Some (n - 1)\<rparr>)"
  shows "\<exists>w'. enqueue_job self j w = (Return (j\<lparr>meta_repeat := Some (n - 1)\<rparr>), w')
      \<and> job_records w' (job_id j) = Some (j\<lparr>meta_repeat := Some (n - 1)\<rparr>)
      \<and> queues w' (origin j) = queues w (origin j) @ [job_id j]
      \<and> filter (\<lambda>e. fst e = job_id j) (scheduled_jobs w')
          = (if n = 1 then [] else [(job_id j, to_unix (clock w (reads w)) + i)])
      \<and> zscore (scheduled_jobs w') (job_id j)
          = (if n = 1 then None else Some (to_unix (clock w (reads w)) + i))"
proof -
  from assms(3,4) have d: "decrement_repeat j = j\<lparr>meta_repeat := Some (n - 1)\<rparr>"
    by (simp add: decrement_repeat_def)
  show ?thesis
  proof (cases "n = 1")
    case True
    with d assms(5) show ?thesis
      by (simp add: enqueue_job_exhausted zscore_zrem) (simp add: zrem_def)
  next
    case False
    with assms d show ?thesis
      by (simp add: enqueue_job_def queue_enqueue_job_def utcnow_def time_time_def Let_def
          zscore_zadd entries_zadd)
  qed
qed

lemma two_repeats_fire_twice:
  "let w0 = with_job (periodic_job ''a'' 10 2) 1000 empty_world;
       wa = snd (enqueue_jobs default_scheduler w0);
       wb = snd (enqueue_jobs default_scheduler wa);
       wc = snd (enqueue_jobs default_scheduler wb)
   in (queues wa ''default'', scheduled_jobs wa, job_records wa ''a'')
        = ([''a''], [(''a'', 1020)], Some (periodic_job ''a'' 10 1))
      \<and> (queues wb ''default'', scheduled_jobs wb, job_records wb ''a'')
        = ([''a'', ''a''], [], Some (periodic_job ''a'' 10 0))
      \<and> (queues wc ''default'', scheduled_jobs wc) = ([''a'', ''a''], [])"
  by (simp add: pass1 pass2 pass3)

text \<open>
  Claim C4, amended. For a job with a non-zero interval of \<open>i\<close> seconds and \<open>n \<ge> 1\<close>
  repeats left whose dispatch succeeds, a firing saves the job with the counter
  \<open>n - 1\<close>, pushes its id to its queue once, and leaves in the schedule store no entry
  for the job when \<open>n = 1\<close>, and otherwise exactly one, due at the clock reading of the
  firing plus \<open>i\<close>. A job with an interval of 10 seconds and 2 repeats, due at 1000:
  the first pass dispatches it and reinserts it at 1010 + 10 with 1 repeat left, the
  second pass dispatches it again and drops it with 0 repeats left, and a third pass
  finds nothing: it fired exactly twice.
\<close>

theorem enqueue_job_fixed_interval:
  assumes "meta_interval j = Some i" and "i \<noteq> 0"
    and "meta_repeat j = Some n" and "1 \<le> n"
    and "\<not> dispatch_fails self (j\<lparr>meta_repeat := Some (n - 1)\<rparr>)"
  shows "(\<exists>w'. enqueue_job self j w = (Return (j\<lparr>meta_repeat := Some (n - 1)\<rparr>), w')
      \<and> job_records w' (job_id j) = Some (j\<lparr>meta_repeat := Some (n - 1)\<rparr>)
      \<and> queues w' (origin j) = queues w (origin j) @ [job_id j]
      \<and> filter (\<lambda>e. fst e = job_id j) (scheduled_jobs w')
          = (if n = 1 then [] else [(job_id j, to_unix (clock w (reads w)) + i)])
      \<and> zscore (scheduled_jobs w') (job_id j)
          = (if n = 1 then None else Some (to_unix (clock w (reads w)) + i)))
    \<and> (let w0 = with_job (periodic_job ''a'' 10 2) 1000 empty_world;
            wa = snd (enqueue_jobs default_scheduler w0);
            wb = snd (enqueue_jobs default_scheduler wa);
            wc = snd (enqueue_jobs default_scheduler wb)
        in (queues wa ''default'', scheduled_jobs wa, job_records wa ''a'')
             = ([''a''], [(''a'', 1020)], Some (periodic_job ''a'' 10 1))
           \<and> (queues wb ''default'', scheduled_jobs wb, job_records wb ''a'')
             = ([''a'', ''a''], [], Some (periodic_job ''a'' 10 0))
           \<and> (queues wc ''default'', scheduled_jobs wc) = ([''a'', ''a''], []))"
  using fixed_interval_firing [OF assms, of w] two_repeats_fire_twice by blast

theorem enqueue_job_fixed_interval_witness:
  "enqueue_job default_scheduler (periodic_job ''a'' 10 2)
       (with_job (periodic_job ''a'' 10 2) 990 empty_world)
     = (Return (periodic_job ''a'' 10 1),
        empty_world\<lparr>job_records := [''a'' \<mapsto> periodic_job ''a'' 10 1],
          queues := (\<lambda>q. [])(''default'' := [''a'']),
          scheduled_jobs := [(''a'', 1010)], reads := 1\<rparr>)"
  using enqueue_job_fixed_interval [of "periodic_job ''a'' 10 2" 10 2 default_scheduler
      "with_job (periodic_job ''a'' 10 2) 990 empty_world"]
  by (simp add: enqueue_job_def queue_enqueue_job_def decrement_repeat_def Let_def
      default_scheduler_def periodic_job_def new_job_def with_job_def empty_world_def
      zadd_def zrem_def zkey_def utcnow_def time_time_def to_unix_def)

section \<open>A failed dispatch ends the pass\<close>

text \<open>
  Claim C1, as stated, fails: \<^verbatim>\<open>enqueue_jobs\<close> calls \<^verbatim>\<open>enqueue_job\<close> in a plain
  \<^verbatim>\<open>for\<close> loop, so the exception of one job leaves the loop. Here the job \<open>a\<close> is
  refused by its queue; the job \<open>b\<close>, due in the same pass, stays in the schedule store
  and is not dispatched.
\<close>

theorem enqueue_jobs_failure_counterexample:
  "fst (get_jobs_to_queue False
          (with_job (new_job ''a'' ''broken'') 990 (with_job (new_job ''b'' ''f'') 995 empty_world)))
     = Return [(new_job ''a'' ''broken'', None), (new_job ''b'' ''f'', None)]
   \<and> \<not> dispatch_fails default_scheduler (new_job ''b'' ''f'')
   \<and> fst (enqueue_jobs default_scheduler
          (with_job (new_job ''a'' ''broken'') 990 (with_job (new_job ''b'' ''f'') 995 empty_world)))
     = Raise DispatchError
   \<and> scheduled_jobs (snd (enqueue_jobs default_scheduler
          (with_job (new_job ''a'' ''broken'') 990 (with_job (new_job ''b'' ''f'') 995 empty_world))))
     = [(''a'', 990), (''b'', 995)]
   \<and> queues (snd (enqueue_jobs default_scheduler
          (with_job (new_job ''a'' ''broken'') 990 (with_job (new_job ''b'' ''f'') 995 empty_world))))
        ''default'' = []"
  by (simp add: run_simps)

text \<open>
  Claim C1, amended. In a single dispatch pass the due jobs are handled in the order of
  the schedule store. When \<^verbatim>\<open>enqueue_job\<close> raises for one of them, after the jobs
  before it were handled, the pass ends there: \<^verbatim>\<open>enqueue_jobs\<close> raises the same
  exception in the world of that moment, the expiry of the scheduler key is not
  refreshed, a job refused by its queue is itself left untouched, and every remaining
  due job (whose id is not that of a job already handled) keeps its entry in the
  schedule store and is pushed to no queue.
\<close>

theorem enqueue_jobs_stops_at_failure:
  assumes "get_jobs_to_queue False w = (Return jobs, wq)"
    and "map fst jobs = pre @ j # post"
    and "enqueue_each self pre wq = (Return served, wp)"
    and "enqueue_job self j wp = (Raise e, wx)"
  shows "enqueue_jobs self w = (Raise e, wx)
     \<and> scheduler_expire wx = scheduler_expire wq
     \<and> (dispatch_fails self (decrement_repeat j) \<longrightarrow> wx = wp)
     \<and> (\<forall>k\<in>set post. job_id k \<notin> job_id ` set (pre @ [j]) \<longrightarrow>
           zscore (scheduled_jobs wx) (job_id k) = zscore (scheduled_jobs wq) (job_id k)
           \<and> (\<forall>q. count_list (queues wx q) (job_id k) = count_list (queues wq q) (job_id k)))"
proof -
  have all: "enqueue_each self (pre @ j # post) wq = (Raise e, wx)"
    using assms(3,4) by (rule enqueue_each_stops)
  have upto: "enqueue_each self (pre @ [j]) wq = (Raise e, wx)"
    using assms(3,4) by (rule enqueue_each_stops)
  from all assms(1,2) have 1: "enqueue_jobs self w = (Raise e, wx)"
    by (simp add: enqueue_jobs_def)
  from enqueue_each_frame [OF upto] have 2: "scheduler_expire wx = scheduler_expire wq"
    by simp
  have 3: "dispatch_fails self (decrement_repeat j) \<longrightarrow> wx = wp"
    using assms(4) by (auto simp: enqueue_job_dispatch_fails)
  have 4: "zscore (scheduled_jobs wx) (job_id k) = zscore (scheduled_jobs wq) (job_id k)
      \<and> (\<forall>q. count_list (queues wx q) (job_id k) = count_list (queues wq q) (job_id k))"
    if "job_id k \<notin> job_id ` set (pre @ [j])" for k
    using enqueue_each_frame [OF upto, of "job_id k"] that by blast
  from 1 2 3 4 show ?thesis by blast
qed

theorem enqueue_jobs_stops_at_failure_witness:
  "enqueue_jobs default_scheduler
       (with_job (new_job ''z'' ''f'') 980
         (with_job (new_job ''a'' ''broken'') 990 (with_job (new_job ''b'' ''f'') 995 empty_world)))
     = (Raise DispatchError,
        empty_world\<lparr>job_records :=
            [''b'' \<mapsto> new_job ''b'' ''f'', ''a'' \<mapsto> new_job ''a'' ''broken'',
             ''z'' \<mapsto> new_job ''z'' ''f''],
          queues := (\<lambda>q. [])(''default'' := [''z'']),
          scheduled_jobs := [(''a'', 990), (''b'', 995)], reads := 1\<rparr>)"
proof -
  let ?w = "with_job (new_job ''z'' ''f'') 980
      (with_job (new_job ''a'' ''broken'') 990 (with_job (new_job ''b'' ''f'') 995 empty_world))"
  let ?wp = "empty_world\<lparr>job_records :=
        [''b'' \<mapsto> new_job ''b'' ''f'', ''a'' \<mapsto> new_job ''a'' ''broken'',
         ''z'' \<mapsto> new_job ''z'' ''f''],
      queues := (\<lambda>q. [])(''default'' := [''z'']),
      scheduled_jobs := [(''a'', 990), (''b'', 995)], reads := 1\<rparr>"
  have 1: "get_jobs_to_queue False ?w
      = (Return [(new_job ''z'' ''f'', None), (new_job ''a'' ''broken'', None),
                 (new_job ''b'' ''f'', None)], ?w\<lparr>reads := 1\<rparr>)"
    by (simp add: run_simps)
  have 2: "map fst [(new_job ''z'' ''f'', None :: datetime option), (new_job ''a'' ''broken'', None),
                 (new_job ''b'' ''f'', None)]
      = [new_job ''z'' ''f''] @ new_job ''a'' ''broken'' # [new_job ''b'' ''f'']"
    by simp
  have 3: "enqueue_each default_scheduler [new_job ''z'' ''f''] (?w\<lparr>reads := 1\<rparr>)
      = (Return [new_job ''z'' ''f''], ?wp)"
    by (simp add: run_simps)
  have 4: "enqueue_job default_scheduler (new_job ''a'' ''broken'') ?wp = (Raise DispatchError, ?wp)"
    by (simp add: run_simps)
  from enqueue_jobs_stops_at_failure [OF 1 2 3 4] show ?thesis by simp
qed

section \<open>The sleep between two ticks\<close>

text \<open>
  Claim C2. \<^verbatim>\<open>run\<close> hands \<^verbatim>\<open>interval - elapsed\<close> to \<^verbatim>\<open>time.sleep\<close> as it is.
  With a poll interval of 5 seconds and a tick that takes 30 seconds (started at 1010,
  finished at 1040) the argument is \<open>-25\<close>, not 0: \<^verbatim>\<open>time.sleep\<close> raises, the loop
  ends with that exception, and the \<^verbatim>\<open>finally\<close> clause removes the lock and
  registers the death.
\<close>

theorem run_overrun_negative_sleep:
  "run 1 (default_scheduler\<lparr>interval := 5\<rparr>) False empty_world
     = Some (Raise (ValueError ''sleep length must be non-negative''),
        empty_world\<lparr>scheduler_hash := Some [''birth'' \<mapsto> 1000, ''death'' \<mapsto> 1050],
          scheduler_expire := Some 60, lock_acquired := True, reads := 6,
          sleep_calls := [- 25]\<rparr>)
   \<and> max 0 (interval (default_scheduler\<lparr>interval := 5\<rparr>) - (1040 - 1010)) = 0"
  by (simp add: run_def tick_def register_birth_def register_death_def acquire_lock_def
      remove_lock_def time_sleep_def exists_scheduler_key_def hexists_scheduler_key_def
      delete_scheduler_key_def hset_scheduler_key_def run_simps)

section \<open>Changing the time of a job that is being removed\<close>

text \<open>
  Claim C6. The job \<open>a\<close> is scheduled at 1500 when \<^verbatim>\<open>change_execution_time\<close>
  watches the key and checks membership; another client removes it before the
  \<^verbatim>\<open>zadd\<close> reaches the store. The \<^verbatim>\<open>zadd\<close> is a command of its own, so no
  \<^verbatim>\<open>WatchError\<close> is raised: the call returns normally and the removed job is
  scheduled again, at the new time.
\<close>

theorem change_execution_time_reinserts_cancelled:
  "change_execution_time (new_job ''a'' ''f'') 2000 [Quiet, Quiet, Cancelled ''a'']
       (with_job (new_job ''a'' ''f'') 1500 empty_world)
     = (Return (), with_job (new_job ''a'' ''f'') 2000 empty_world)
   \<and> scheduled_jobs (snd (cancel (Ident ''a'') (with_job (new_job ''a'' ''f'') 1500 empty_world))) = []
   \<and> scheduled_jobs (with_job (new_job ''a'' ''f'') 2000 empty_world) = [(''a'', 2000)]"
  by (simp add: try_change_def on_watch_error_def zscore_def run_simps)

end
